theory Spec2Isabelle
  imports Main "HOL-Library.Word" "HOL-Library.AList" "HOL-Library.Multiset"
begin

section \<open>Test tools of the control service (flocker/control/testtools.py)\<close>

subsection \<open>Values of the control model\<close>

text \<open>
  A UUID is a 128-bit value, a block device id is a text, and an expiration is a point in
  time, here counted in microseconds. A Python dict is an association list with distinct
  keys: storing under a key that is present replaces the value, storing under a new key
  adds an entry. The order in which a dict hands out its items is not fixed by the
  language, so \<open>dict_items\<close> takes the iteration order as a parameter.
\<close>

type_synonym uuid = "128 word"
type_synonym datetime = int
type_synonym ('k, 'v) dict = "('k \<times> 'v) list"

datatype error = DatasetAlreadyOwned | TypeError | IndexError | KeyError

definition dict_set :: "('k, 'v) dict \<Rightarrow> 'k \<Rightarrow> 'v \<Rightarrow> ('k, 'v) dict" where
  "dict_set d k v = AList.update k v d"

definition dict_getitem :: "('k, 'v) dict \<Rightarrow> 'k \<Rightarrow> error + 'v" where
  "dict_getitem d k = (case map_of d k of None \<Rightarrow> Inl KeyError | Some v \<Rightarrow> Inr v)"

definition dict_comprehension :: "('a \<Rightarrow> 'k) \<Rightarrow> 'a list \<Rightarrow> ('k, 'a) dict" where
  "dict_comprehension key xs = foldl (\<lambda>d x. dict_set d (key x) x) [] xs"


definition dict_items ::
  "(('k \<times> 'v) list \<Rightarrow> ('k \<times> 'v) list) \<Rightarrow> ('k, 'v) dict \<Rightarrow> ('k \<times> 'v) list" where
  "dict_items ord d = ord d"

record Node =
  uuid :: uuid
  manifestations :: "(uuid, bool) dict"

record Lease =
  dataset_id :: uuid
  node_id :: uuid
  expiration :: datetime

record PersistentState =
  blockdevice_ownership :: "(uuid, string) dict"

record Deployment =
  nodes :: "(uuid, Node) dict"
  leases :: "(uuid, Lease) dict"
  persistent_state :: PersistentState

text \<open>
  Modelled from the spec: the classes \<open>Node\<close> and \<open>PersistentState\<close> of
  \<open>flocker.control._model\<close> are not among the sources. A manifestation is tagged primary
  or not; a \<open>Node\<close> built from a uuid alone carries no manifestations, and
  \<open>PersistentState()\<close> is the empty ownership ledger.
\<close>

definition Node_of_uuid :: "uuid \<Rightarrow> Node" where
  "Node_of_uuid u = \<lparr>uuid = u, manifestations = []\<rparr>"

definition PersistentState_new :: PersistentState where
  "PersistentState_new = \<lparr>blockdevice_ownership = []\<rparr>"

subsection \<open>The conformance suite of \<open>IStatePersister\<close>\<close>

text \<open>
  \<open>record_ownership\<close> returns a Deferred, which has fired with a result, fired with a
  failure, or not fired. A call may change the persister whatever it returns, so an
  implementation is a function from the persister's state to the Deferred and the state
  afterwards. A fixture hands out a new persister and the function reading its
  \<open>PersistentState\<close>.
\<close>

datatype 'a deferred = NoResult | Success 'a | Failure error

record 'st fixture =
  new_persister :: 'st
  record_ownership :: "'st \<Rightarrow> uuid \<Rightarrow> string \<Rightarrow> unit deferred \<times> 'st"
  get_state :: "'st \<Rightarrow> PersistentState"

datatype verdict = Passed | Failed | Discarded

definition test_records_blockdeviceid :: "'st fixture \<Rightarrow> uuid \<Rightarrow> string \<Rightarrow> verdict" where
  "test_records_blockdeviceid fx did bid =
     (case record_ownership fx (new_persister fx) did bid of
        (Success _, s1) \<Rightarrow>
          (case dict_getitem (blockdevice_ownership (get_state fx s1)) did of
             Inl _ \<Rightarrow> Failed
           | Inr b \<Rightarrow> if b = bid then Passed else Failed)
      | (_, _) \<Rightarrow> Failed)"

definition test_duplicate_blockdevice_id ::
  "'st fixture \<Rightarrow> uuid \<Rightarrow> string \<Rightarrow> string \<Rightarrow> verdict" where
  "test_duplicate_blockdevice_id fx did bid other_bid =
     (if \<not> bid \<noteq> other_bid then Discarded
      else case record_ownership fx (new_persister fx) did bid of
        (Success _, s1) \<Rightarrow>
          (case record_ownership fx s1 did other_bid of
             (Failure e, s2) \<Rightarrow>
               if e = DatasetAlreadyOwned then
                 (case dict_getitem (blockdevice_ownership (get_state fx s2)) did of
                    Inl _ \<Rightarrow> Failed
                  | Inr b \<Rightarrow> if b = bid then Passed else Failed)
               else Failed
           | (_, _) \<Rightarrow> Failed)
      | (_, _) \<Rightarrow> Failed)"

text \<open>
  Modelled from the spec: \<open>InMemoryStatePersister\<close> of \<open>flocker.control._registry\<close> is
  not among the sources. Recording binds a dataset id that has no handle yet; the same
  handle again succeeds and changes nothing; a different handle fails with
  \<open>DatasetAlreadyOwned\<close> and changes nothing.
\<close>

definition InMemory_record_ownership ::
  "PersistentState \<Rightarrow> uuid \<Rightarrow> string \<Rightarrow> unit deferred \<times> PersistentState" where
  "InMemory_record_ownership s did bid =
     (case map_of (blockdevice_ownership s) did of
        None \<Rightarrow> (Success (), s\<lparr>blockdevice_ownership := dict_set (blockdevice_ownership s) did bid\<rparr>)
      | Some b \<Rightarrow> if b = bid then (Success (), s) else (Failure DatasetAlreadyOwned, s))"

definition InMemoryStatePersister :: "PersistentState fixture" where
  "InMemoryStatePersister =
     \<lparr>new_persister = PersistentState_new,
      record_ownership = InMemory_record_ownership,
      get_state = (\<lambda>s. s)\<rparr>"

text \<open>
  A persister that refuses every write to a dataset id that is bound, the same handle
  included. It is used to tell apart what the suite checks from what it does not.
\<close>

definition Strict_record_ownership ::
  "PersistentState \<Rightarrow> uuid \<Rightarrow> string \<Rightarrow> unit deferred \<times> PersistentState" where
  "Strict_record_ownership s did bid =
     (case map_of (blockdevice_ownership s) did of
        None \<Rightarrow> (Success (), s\<lparr>blockdevice_ownership := dict_set (blockdevice_ownership s) did bid\<rparr>)
      | Some b \<Rightarrow> (Failure DatasetAlreadyOwned, s))"

definition StrictStatePersister :: "PersistentState fixture" where
  "StrictStatePersister =
     \<lparr>new_persister = PersistentState_new,
      record_ownership = Strict_record_ownership,
      get_state = (\<lambda>s. s)\<rparr>"

subsection \<open>Building a control service for a test\<close>

text \<open>
  The reactor a service is built over is the process-wide reactor, a \<open>Clock\<close> (time moves
  only when a test advances it), or a \<open>MemoryReactor\<close>. Only \<open>build_control_amp_service\<close>
  is in the sources: each service class is taken to keep the arguments its constructor is
  given, \<open>startService\<close> to mark the service running, and the test case to collect its
  clean-ups and to number the temporary directories it makes.
\<close>

datatype reactor = GlobalReactor | Clock | MemoryReactor

record ClusterStateService =
  cluster_reactor :: reactor
  cluster_running :: bool

record ConfigurationPersistenceService =
  persistence_reactor :: reactor
  persistence_path :: nat
  persistence_running :: bool

datatype context_factory = ClientContextFactory

record TCP4ServerEndpoint =
  endpoint_reactor :: reactor
  endpoint_port :: nat

record ControlAMPService =
  service_reactor :: reactor
  cluster_state :: ClusterStateService
  configuration_service :: ConfigurationPersistenceService
  endpoint :: TCP4ServerEndpoint
  context_factory :: context_factory

datatype cleanup = StopClusterState | StopPersistence

record test_case =
  cleanups :: "cleanup list"
  temporary_directories :: nat

definition addCleanup :: "test_case \<Rightarrow> cleanup \<Rightarrow> test_case" where
  "addCleanup tc c = tc\<lparr>cleanups := cleanups tc @ [c]\<rparr>"

definition make_temporary_directory :: "test_case \<Rightarrow> nat \<times> test_case" where
  "make_temporary_directory tc =
     (temporary_directories tc, tc\<lparr>temporary_directories := Suc (temporary_directories tc)\<rparr>)"

definition build_control_amp_service ::
  "test_case \<Rightarrow> reactor option \<Rightarrow> ControlAMPService \<times> test_case" where
  "build_control_amp_service tc reactor_arg =
     (let reactor = (case reactor_arg of None \<Rightarrow> Clock | Some r \<Rightarrow> r);
          cluster_state0 = \<lparr>cluster_reactor = reactor, cluster_running = False\<rparr>;
          cluster_state1 = cluster_state0\<lparr>cluster_running := True\<rparr>;
          tc1 = addCleanup tc StopClusterState;
          (path, tc2) = make_temporary_directory tc1;
          persistence0 = \<lparr>persistence_reactor = reactor, persistence_path = path,
                          persistence_running = False\<rparr>;
          persistence1 = persistence0\<lparr>persistence_running := True\<rparr>;
          tc3 = addCleanup tc2 StopPersistence
      in (\<lparr>service_reactor = reactor, cluster_state = cluster_state1,
           configuration_service = persistence1,
           endpoint = \<lparr>endpoint_reactor = MemoryReactor, endpoint_port = 1234\<rparr>,
           context_factory = ClientContextFactory\<rparr>, tc3))"

subsection \<open>Strategies for model values\<close>

text \<open>
  A strategy is \<open>st.just v\<close>, which always yields \<open>v\<close>, or a random source. What a random
  source yields is an input of the model: \<open>draw_from\<close> takes the value the source hands
  out, and each composite strategy takes the values its own draws receive.
\<close>

datatype 'a strategy = Just 'a | Random

fun draw_from :: "'a strategy \<Rightarrow> 'a \<Rightarrow> 'a" where
  "draw_from (Just v) r = v"
| "draw_from Random r = r"

record lease_draw =
  drawn_dataset_id :: uuid
  drawn_node_id :: uuid
  drawn_expiration :: datetime

record draws =
  drawn_node_uuids :: "uuid list"
  drawn_lease_indexes :: "nat list"
  drawn_leases :: "nat \<Rightarrow> lease_draw"

definition persistent_state_strategy :: "draws \<Rightarrow> PersistentState" where
  "persistent_state_strategy dr = PersistentState_new"

text \<open>
  \<open>lease_strategy\<close> takes the keyword arguments \<open>dataset_id\<close> and \<open>node_id\<close>, each a
  strategy that defaults to \<open>st.uuids()\<close>; any other keyword is a \<open>TypeError\<close>.
\<close>

definition keyword :: "(string \<times> 'a strategy) list \<Rightarrow> string \<Rightarrow> 'a strategy \<Rightarrow> 'a strategy" where
  "keyword kwargs name dflt = (case map_of kwargs name of None \<Rightarrow> dflt | Some s \<Rightarrow> s)"

definition lease_strategy :: "(string \<times> uuid strategy) list \<Rightarrow> lease_draw \<Rightarrow> error + Lease" where
  "lease_strategy kwargs r =
     (if \<exists>name \<in> set (map fst kwargs). name \<notin> set [''dataset_id'', ''node_id'']
      then Inl TypeError
      else Inr \<lparr>dataset_id = draw_from (keyword kwargs ''dataset_id'' Random) (drawn_dataset_id r),
                node_id = draw_from (keyword kwargs ''node_id'' Random) (drawn_node_id r),
                expiration = drawn_expiration r\<rparr>)"

definition node_strategy :: "uuid \<Rightarrow> Node" where
  "node_strategy r = Node_of_uuid r"

text \<open>
  \<open>deployment_strategy\<close>, step by step: the mapping from each manifested dataset to the
  node holding it, the lease indexes (drawn only when the mapping is not empty), the items
  the indexes select, the leases drawn for them, and the Deployment built at the end.
\<close>

definition dataset_id_node_mapping :: "Node list \<Rightarrow> (uuid, uuid) dict" where
  "dataset_id_node_mapping ns =
     foldl (\<lambda>m node. foldl (\<lambda>m' did. dict_set m' did (uuid node)) m
                        (map fst (manifestations node))) [] ns"

definition lease_indexes :: "Node list \<Rightarrow> draws \<Rightarrow> nat list" where
  "lease_indexes ns dr =
     (if length (dataset_id_node_mapping ns) > 0 then drawn_lease_indexes dr else [])"

definition getitem :: "'a list \<Rightarrow> nat \<Rightarrow> error + 'a" where
  "getitem xs i = (if i < length xs then Inr (xs ! i) else Inl IndexError)"

definition lease_selection ::
  "((uuid \<times> uuid) list \<Rightarrow> (uuid \<times> uuid) list) \<Rightarrow> Node list \<Rightarrow> draws \<Rightarrow> (error + uuid \<times> uuid) list" where
  "lease_selection ord ns dr =
     map (getitem (dict_items ord (dataset_id_node_mapping ns))) (lease_indexes ns dr)"

fun draw_leases :: "(nat \<Rightarrow> lease_draw) \<Rightarrow> nat \<Rightarrow> (error + uuid \<times> uuid) list \<Rightarrow> error + Lease list" where
  "draw_leases rs k [] = Inr []"
| "draw_leases rs k (Inl e # sel) = Inl e"
| "draw_leases rs k (Inr (did, node_uuid) # sel) =
     (case lease_strategy [(''dataset_id'', Just did), (''node_uuid'', Just node_uuid)] (rs k) of
        Inl e \<Rightarrow> Inl e
      | Inr l \<Rightarrow> (case draw_leases rs (Suc k) sel of
                    Inl e \<Rightarrow> Inl e
                  | Inr ls \<Rightarrow> Inr (l # ls)))"

definition build_deployment :: "Node list \<Rightarrow> Lease list \<Rightarrow> PersistentState \<Rightarrow> Deployment" where
  "build_deployment ns ls ps =
     \<lparr>nodes = dict_comprehension uuid ns,
      leases = dict_comprehension dataset_id ls,
      persistent_state = ps\<rparr>"

definition deployment_of_nodes ::
  "((uuid \<times> uuid) list \<Rightarrow> (uuid \<times> uuid) list) \<Rightarrow> Node list \<Rightarrow> draws \<Rightarrow> error + Deployment" where
  "deployment_of_nodes ord ns dr =
     (case draw_leases (drawn_leases dr) 0 (lease_selection ord ns dr) of
        Inl e \<Rightarrow> Inl e
      | Inr ls \<Rightarrow> Inr (build_deployment ns ls (persistent_state_strategy dr)))"

definition deployment_strategy ::
  "((uuid \<times> uuid) list \<Rightarrow> (uuid \<times> uuid) list) \<Rightarrow> draws \<Rightarrow> error + Deployment" where
  "deployment_strategy ord dr =
     deployment_of_nodes ord (map node_strategy (drawn_node_uuids dr)) dr"

text \<open>
  What \<open>st.lists\<close> and \<open>st.sets\<close> can hand out: at least \<open>min_number_of_nodes\<close> and at most
  \<open>max min_number_of_nodes 1000\<close> nodes, and a set of indexes into the mapping.
\<close>

definition valid_draws :: "nat \<Rightarrow> draws \<Rightarrow> bool" where
  "valid_draws min_number_of_nodes dr \<longleftrightarrow>
     min_number_of_nodes \<le> length (drawn_node_uuids dr) \<and>
     length (drawn_node_uuids dr) \<le> max min_number_of_nodes 1000 \<and>
     distinct (drawn_lease_indexes dr) \<and>
     (\<forall>i \<in> set (drawn_lease_indexes dr).
        i < length (dataset_id_node_mapping (map node_strategy (drawn_node_uuids dr))))"

subsection \<open>Values the theorems are tried on\<close>

definition shared_uuid_draws :: draws where
  "shared_uuid_draws =
     \<lparr>drawn_node_uuids = [7, 7], drawn_lease_indexes = [],
      drawn_leases = (\<lambda>k. \<lparr>drawn_dataset_id = 0, drawn_node_id = 0, drawn_expiration = 0\<rparr>)\<rparr>"

definition two_dataset_node :: Node where
  "two_dataset_node = \<lparr>uuid = 1, manifestations = [(10, True), (11, False)]\<rparr>"

definition first_index_draws :: draws where
  "first_index_draws =
     \<lparr>drawn_node_uuids = [1], drawn_lease_indexes = [0],
      drawn_leases = (\<lambda>k. \<lparr>drawn_dataset_id = 0, drawn_node_id = 0, drawn_expiration = 0\<rparr>)\<rparr>"

definition two_leases :: "Lease list" where
  "two_leases =
     [\<lparr>dataset_id = 10, node_id = 1, expiration = 5\<rparr>,
      \<lparr>dataset_id = 10, node_id = 2, expiration = 6\<rparr>]"


section \<open>Facts about dicts\<close>

lemma set_dict_set: "set (dict_set d k v) \<subseteq> insert (k, v) (set d)"
  unfolding dict_set_def by (induction d) auto

lemma keys_dict_set: "fst ` set (dict_set d k v) = insert k (fst ` set d)"
  unfolding dict_set_def by (simp add: dom_update)

lemma distinct_dict_set: "distinct (map fst d) \<Longrightarrow> distinct (map fst (dict_set d k v))"
  unfolding dict_set_def by (rule distinct_update)

lemma map_of_dict_set: "map_of (dict_set d k v) = (map_of d)(k \<mapsto> v)"
  unfolding dict_set_def by (rule update_conv')

lemma getitem_dict_set_same: "dict_getitem (dict_set d k v) k = Inr v"
  by (simp add: dict_getitem_def map_of_dict_set)

lemma dict_comprehension_Nil: "dict_comprehension key [] = []"
  by (simp add: dict_comprehension_def)

lemma dict_comprehension_snoc:
  "dict_comprehension key (xs @ [x]) = dict_set (dict_comprehension key xs) (key x) x"
  by (simp add: dict_comprehension_def)

lemma distinct_dict_comprehension: "distinct (map fst (dict_comprehension key xs))"
  by (induction xs rule: rev_induct)
     (simp_all add: dict_comprehension_Nil dict_comprehension_snoc distinct_dict_set)

lemma dict_comprehension_key:
  "(k, x) \<in> set (dict_comprehension key xs) \<Longrightarrow> key x = k \<and> x \<in> set xs"
proof (induction xs arbitrary: k x rule: rev_induct)
  case Nil
  then show ?case by (simp add: dict_comprehension_Nil)
next
  case (snoc y ys)
  from snoc.prems have "(k, x) = (key y, y) \<or> (k, x) \<in> set (dict_comprehension key ys)"
    using set_dict_set [of "dict_comprehension key ys" "key y" y]
    by (auto simp: dict_comprehension_snoc)
  then show ?case using snoc.IH by auto
qed

lemma keys_dict_comprehension: "fst ` set (dict_comprehension key xs) = key ` set xs"
  by (induction xs rule: rev_induct)
     (auto simp: dict_comprehension_Nil dict_comprehension_snoc keys_dict_set)

lemma map_of_dict_comprehension:
  "map_of (dict_comprehension key xs) k =
     (if filter (\<lambda>x. key x = k) xs = [] then None
      else Some (last (filter (\<lambda>x. key x = k) xs)))"
proof (induction xs rule: rev_induct)
  case Nil
  then show ?case by (simp add: dict_comprehension_Nil)
next
  case (snoc x xs)
  show ?case
  proof (cases "key x = k")
    case True
    then show ?thesis
      by (simp add: dict_comprehension_snoc map_of_dict_set)
  next
    case False
    then show ?thesis using snoc.IH
      by (simp add: dict_comprehension_snoc map_of_dict_set)
  qed
qed

lemma length_dict_comprehension: "length (dict_comprehension key xs) \<le> length xs"
proof -
  have "length (dict_comprehension key xs) = card (fst ` set (dict_comprehension key xs))"
    using distinct_dict_comprehension [of key xs]
    by (metis distinct_card length_map set_map)
  also have "\<dots> = card (key ` set xs)" by (simp add: keys_dict_comprehension)
  also have "\<dots> \<le> length xs" by (metis card_image_le card_length le_trans List.finite_set)
  finally show ?thesis .
qed

section \<open>The ownership ledger and its conformance suite\<close>

lemma InMemory_success_binds:
  assumes "InMemory_record_ownership s did bid = (Success (), s1)"
  shows "map_of (blockdevice_ownership s1) did = Some bid"
  using assms
  by (auto simp: InMemory_record_ownership_def map_of_dict_set split: option.splits if_splits)

lemma InMemory_fresh:
  "InMemory_record_ownership PersistentState_new did bid
     = (Success (), \<lparr>blockdevice_ownership = [(did, bid)]\<rparr>)"
  by (simp add: InMemory_record_ownership_def PersistentState_new_def dict_set_def)

lemma test_records_blockdeviceid_Passed:
  "test_records_blockdeviceid fx did bid = Passed \<longleftrightarrow>
     (\<exists>s1. record_ownership fx (new_persister fx) did bid = (Success (), s1) \<and>
           dict_getitem (blockdevice_ownership (get_state fx s1)) did = Inr bid)"
  by (auto simp: test_records_blockdeviceid_def split: prod.splits deferred.splits sum.splits)

lemma test_duplicate_blockdevice_id_Passed:
  "test_duplicate_blockdevice_id fx did bid other_bid = Passed \<longleftrightarrow>
     bid \<noteq> other_bid \<and>
     (\<exists>s1 s2. record_ownership fx (new_persister fx) did bid = (Success (), s1) \<and>
        record_ownership fx s1 did other_bid = (Failure DatasetAlreadyOwned, s2) \<and>
        dict_getitem (blockdevice_ownership (get_state fx s2)) did = Inr bid)"
  by (auto simp: test_duplicate_blockdevice_id_def
           split: prod.splits deferred.splits sum.splits)

lemma InMemory_passes_duplicate:
  "bid \<noteq> other_bid \<Longrightarrow> test_duplicate_blockdevice_id InMemoryStatePersister did bid other_bid = Passed"
proof -
  assume ne: "bid \<noteq> other_bid"
  let ?s1 = "\<lparr>blockdevice_ownership = [(did, bid)]\<rparr>"
  have first: "record_ownership InMemoryStatePersister (new_persister InMemoryStatePersister)
                 did bid = (Success (), ?s1)"
    by (simp add: InMemoryStatePersister_def InMemory_fresh)
  have second: "record_ownership InMemoryStatePersister ?s1 did other_bid
                  = (Failure DatasetAlreadyOwned, ?s1)"
    using ne by (simp add: InMemoryStatePersister_def InMemory_record_ownership_def)
  have read: "dict_getitem (blockdevice_ownership (get_state InMemoryStatePersister ?s1)) did
                = Inr bid"
    by (simp add: InMemoryStatePersister_def dict_getitem_def)
  show ?thesis
    unfolding test_duplicate_blockdevice_id_Passed using ne first second read by blast
qed

lemma Strict_fresh:
  "Strict_record_ownership PersistentState_new did bid
     = (Success (), \<lparr>blockdevice_ownership = [(did, bid)]\<rparr>)"
  by (simp add: Strict_record_ownership_def PersistentState_new_def dict_set_def)

lemma Strict_passes_suite:
  "test_records_blockdeviceid StrictStatePersister did bid = Passed \<and>
   test_duplicate_blockdevice_id StrictStatePersister did bid other_bid \<noteq> Failed"
proof -
  let ?s1 = "\<lparr>blockdevice_ownership = [(did, bid)]\<rparr>"
  have first: "record_ownership StrictStatePersister (new_persister StrictStatePersister)
                 did bid = (Success (), ?s1)"
    by (simp add: StrictStatePersister_def Strict_fresh)
  have second: "record_ownership StrictStatePersister ?s1 did other_bid
                  = (Failure DatasetAlreadyOwned, ?s1)"
    by (simp add: StrictStatePersister_def Strict_record_ownership_def)
  have read: "dict_getitem (blockdevice_ownership (get_state StrictStatePersister ?s1)) did
                = Inr bid"
    by (simp add: StrictStatePersister_def dict_getitem_def)
  have a: "test_records_blockdeviceid StrictStatePersister did bid = Passed"
    unfolding test_records_blockdeviceid_Passed using first read by blast
  have b: "test_duplicate_blockdevice_id StrictStatePersister did bid other_bid \<noteq> Failed"
    by (simp add: test_duplicate_blockdevice_id_def first second read)
  show ?thesis using a b by simp
qed

lemma Strict_not_idempotent:
  "Strict_record_ownership (snd (Strict_record_ownership PersistentState_new did bid)) did bid
     = (Failure DatasetAlreadyOwned, \<lparr>blockdevice_ownership = [(did, bid)]\<rparr>)"
proof -
  have "Strict_record_ownership \<lparr>blockdevice_ownership = [(did, bid)]\<rparr> did bid
          = (Failure DatasetAlreadyOwned, \<lparr>blockdevice_ownership = [(did, bid)]\<rparr>)"
    by (simp add: Strict_record_ownership_def)
  then show ?thesis by (simp add: Strict_fresh)
qed

text \<open>
  C1: for every dataset id and every two different handles, once \<open>record_ownership\<close> has
  succeeded with the first handle, recording the second handle fails with
  \<open>DatasetAlreadyOwned\<close>, the persister is as it was before the failed call, and the dataset
  id still reads back as the first handle. \<open>test_duplicate_blockdevice_id\<close> passes for a
  fixture exactly when that fixture's persister behaves so from new, and the in-memory
  persister passes it.
\<close>

theorem different_handle_is_rejected:
  assumes "bid \<noteq> other_bid"
    and "InMemory_record_ownership s did bid = (Success (), s1)"
  shows "InMemory_record_ownership s1 did other_bid = (Failure DatasetAlreadyOwned, s1) \<and>
         dict_getitem (blockdevice_ownership s1) did = Inr bid \<and>
         test_duplicate_blockdevice_id InMemoryStatePersister did bid other_bid = Passed \<and>
         (test_duplicate_blockdevice_id fx did bid other_bid = Passed \<longleftrightarrow>
            (\<exists>t1 t2. record_ownership fx (new_persister fx) did bid = (Success (), t1) \<and>
               record_ownership fx t1 did other_bid = (Failure DatasetAlreadyOwned, t2) \<and>
               dict_getitem (blockdevice_ownership (get_state fx t2)) did = Inr bid))"
proof -
  have bound: "map_of (blockdevice_ownership s1) did = Some bid"
    using assms(2) by (rule InMemory_success_binds)
  have a: "InMemory_record_ownership s1 did other_bid = (Failure DatasetAlreadyOwned, s1)"
    using bound assms(1) by (simp add: InMemory_record_ownership_def)
  have b: "dict_getitem (blockdevice_ownership s1) did = Inr bid"
    using bound by (simp add: dict_getitem_def)
  have c: "test_duplicate_blockdevice_id InMemoryStatePersister did bid other_bid = Passed"
    using assms(1) by (rule InMemory_passes_duplicate)
  show ?thesis
    using a b c assms(1) test_duplicate_blockdevice_id_Passed [of fx did bid other_bid]
    by blast
qed

theorem different_handle_is_rejected_witness:
  "''disk-1'' \<noteq> ''disk-2'' \<and>
   InMemory_record_ownership PersistentState_new 1 ''disk-1''
     = (Success (), \<lparr>blockdevice_ownership = [(1, ''disk-1'')]\<rparr>) \<and>
   InMemory_record_ownership \<lparr>blockdevice_ownership = [(1, ''disk-1'')]\<rparr> 1 ''disk-2''
     = (Failure DatasetAlreadyOwned, \<lparr>blockdevice_ownership = [(1, ''disk-1'')]\<rparr>) \<and>
   dict_getitem [(1 :: uuid, ''disk-1'')] 1 = Inr ''disk-1'' \<and>
   test_duplicate_blockdevice_id InMemoryStatePersister 1 ''disk-1'' ''disk-2'' = Passed"
proof -
  have ne: "''disk-1'' \<noteq> ''disk-2''" by simp
  have first: "InMemory_record_ownership PersistentState_new 1 ''disk-1''
     = (Success (), \<lparr>blockdevice_ownership = [(1, ''disk-1'')]\<rparr>)"
    by (rule InMemory_fresh)
  show ?thesis
    using ne first different_handle_is_rejected [OF ne first, of InMemoryStatePersister]
    by simp
qed

text \<open>
  C2: for every dataset id and handle, the first \<open>record_ownership\<close> for a dataset id that
  has no handle yet succeeds, and the dataset id then reads back as that handle; so it is
  for a new in-memory persister. \<open>test_records_blockdeviceid\<close> passes for a fixture exactly
  when its new persister behaves so, and the in-memory persister passes it.
\<close>

theorem first_write_succeeds_and_is_visible:
  assumes "map_of (blockdevice_ownership s) did = None"
  shows "(\<exists>s1. InMemory_record_ownership s did bid = (Success (), s1) \<and>
            dict_getitem (blockdevice_ownership s1) did = Inr bid) \<and>
         (\<exists>s1. record_ownership InMemoryStatePersister (new_persister InMemoryStatePersister)
                  did bid = (Success (), s1) \<and>
            dict_getitem (blockdevice_ownership (get_state InMemoryStatePersister s1)) did = Inr bid) \<and>
         test_records_blockdeviceid InMemoryStatePersister did bid = Passed \<and>
         (test_records_blockdeviceid fx did bid = Passed \<longleftrightarrow>
            (\<exists>s1. record_ownership fx (new_persister fx) did bid = (Success (), s1) \<and>
               dict_getitem (blockdevice_ownership (get_state fx s1)) did = Inr bid))"
proof -
  have a: "\<exists>s1. InMemory_record_ownership s did bid = (Success (), s1) \<and>
            dict_getitem (blockdevice_ownership s1) did = Inr bid"
    using assms by (simp add: InMemory_record_ownership_def getitem_dict_set_same)
  have b: "\<exists>s1. record_ownership InMemoryStatePersister (new_persister InMemoryStatePersister)
                  did bid = (Success (), s1) \<and>
            dict_getitem (blockdevice_ownership (get_state InMemoryStatePersister s1)) did = Inr bid"
    by (simp add: InMemoryStatePersister_def InMemory_fresh dict_getitem_def)
  have c: "test_records_blockdeviceid InMemoryStatePersister did bid = Passed"
    using b by (simp only: test_records_blockdeviceid_Passed)
  show ?thesis using a b c test_records_blockdeviceid_Passed [of fx did bid] by blast
qed

theorem first_write_succeeds_and_is_visible_witness:
  "map_of (blockdevice_ownership PersistentState_new) (1 :: uuid) = None \<and>
   (\<exists>s1. InMemory_record_ownership PersistentState_new 1 ''disk-1'' = (Success (), s1) \<and>
      dict_getitem (blockdevice_ownership s1) 1 = Inr ''disk-1'') \<and>
   test_records_blockdeviceid InMemoryStatePersister 1 ''disk-1'' = Passed"
proof -
  have fresh: "map_of (blockdevice_ownership PersistentState_new) (1 :: uuid) = None"
    by (simp add: PersistentState_new_def)
  show ?thesis
    using fresh
      first_write_succeeds_and_is_visible [OF fresh, of "''disk-1''" InMemoryStatePersister]
    by simp
qed

text \<open>
  C3, as the claim states it, fails in its second half: the suite does not check that a
  repeated call with the same pair succeeds. The persister that refuses every write to a
  bound dataset id passes \<open>test_records_blockdeviceid\<close> and \<open>test_duplicate_blockdevice_id\<close>,
  the latter discards the example whose two handles are equal, and the repeated call of that
  persister fails.
\<close>

theorem suite_checks_idempotence_counterexample:
  "test_records_blockdeviceid StrictStatePersister 1 ''disk-1'' = Passed \<and>
   test_duplicate_blockdevice_id StrictStatePersister 1 ''disk-1'' ''disk-2'' = Passed \<and>
   test_duplicate_blockdevice_id StrictStatePersister 1 ''disk-1'' ''disk-1'' = Discarded \<and>
   fst (record_ownership StrictStatePersister
          (snd (record_ownership StrictStatePersister (new_persister StrictStatePersister) 1 ''disk-1''))
          1 ''disk-1'') = Failure DatasetAlreadyOwned"
proof -
  let ?s1 = "\<lparr>blockdevice_ownership = [(1::uuid, ''disk-1'')]\<rparr>"
  have first: "record_ownership StrictStatePersister (new_persister StrictStatePersister)
                 1 ''disk-1'' = (Success (), ?s1)"
    by (simp add: StrictStatePersister_def Strict_fresh)
  have second: "record_ownership StrictStatePersister ?s1 1 b
                  = (Failure DatasetAlreadyOwned, ?s1)" for b
    by (simp add: StrictStatePersister_def Strict_record_ownership_def)
  have read: "dict_getitem (blockdevice_ownership (get_state StrictStatePersister ?s1)) 1
                = Inr ''disk-1''"
    by (simp add: StrictStatePersister_def dict_getitem_def)
  show ?thesis
    by (simp add: test_records_blockdeviceid_def test_duplicate_blockdevice_id_def
          first second read)
qed

text \<open>
  C3, amended: for every dataset id and handle, once \<open>record_ownership\<close> has succeeded, the
  same call again succeeds and leaves the persister as it was. The conformance suite does
  not check this: \<open>test_duplicate_blockdevice_id\<close> discards every example whose two handles
  are equal, whatever the fixture, and a persister whose repeated call fails is failed by
  no test of the suite on any input.
\<close>

theorem identical_pair_is_idempotent_and_unchecked:
  assumes "InMemory_record_ownership s did bid = (Success (), s1)"
  shows "InMemory_record_ownership s1 did bid = (Success (), s1) \<and>
         test_duplicate_blockdevice_id fx did bid bid = Discarded \<and>
         test_records_blockdeviceid StrictStatePersister d b = Passed \<and>
         test_duplicate_blockdevice_id StrictStatePersister d b b2 \<noteq> Failed \<and>
         fst (Strict_record_ownership (snd (Strict_record_ownership PersistentState_new d b)) d b)
           = Failure DatasetAlreadyOwned"
proof -
  have bound: "map_of (blockdevice_ownership s1) did = Some bid"
    using assms by (rule InMemory_success_binds)
  have a: "InMemory_record_ownership s1 did bid = (Success (), s1)"
    using bound by (simp add: InMemory_record_ownership_def)
  have b: "test_duplicate_blockdevice_id fx did bid bid = Discarded"
    by (simp add: test_duplicate_blockdevice_id_def)
  show ?thesis using a b Strict_passes_suite [of d b b2] Strict_not_idempotent [of d b]
    by simp
qed

theorem identical_pair_is_idempotent_and_unchecked_witness:
  "InMemory_record_ownership PersistentState_new 1 ''disk-1''
     = (Success (), \<lparr>blockdevice_ownership = [(1, ''disk-1'')]\<rparr>) \<and>
   InMemory_record_ownership \<lparr>blockdevice_ownership = [(1, ''disk-1'')]\<rparr> 1 ''disk-1''
     = (Success (), \<lparr>blockdevice_ownership = [(1, ''disk-1'')]\<rparr>) \<and>
   test_duplicate_blockdevice_id InMemoryStatePersister 1 ''disk-1'' ''disk-1'' = Discarded"
proof -
  have first: "InMemory_record_ownership PersistentState_new 1 ''disk-1''
     = (Success (), \<lparr>blockdevice_ownership = [(1, ''disk-1'')]\<rparr>)"
    by (rule InMemory_fresh)
  show ?thesis
    using first identical_pair_is_idempotent_and_unchecked [OF first, of InMemoryStatePersister]
    by simp
qed

section \<open>The control service built for a test\<close>

text \<open>
  C7: when \<open>build_control_amp_service\<close> is called with no reactor, the cluster state
  service, the configuration persistence service and the returned control service are each
  built over the \<open>Clock\<close> made in the call, and none over the process-wide reactor.
\<close>

theorem services_share_injected_clock:
  "service_reactor (fst (build_control_amp_service tc None)) = Clock \<and>
   cluster_reactor (cluster_state (fst (build_control_amp_service tc None))) = Clock \<and>
   persistence_reactor (configuration_service (fst (build_control_amp_service tc None))) = Clock \<and>
   service_reactor (fst (build_control_amp_service tc None)) \<noteq> GlobalReactor \<and>
   cluster_reactor (cluster_state (fst (build_control_amp_service tc None))) \<noteq> GlobalReactor \<and>
   persistence_reactor (configuration_service (fst (build_control_amp_service tc None)))
     \<noteq> GlobalReactor"
  by (simp add: build_control_amp_service_def make_temporary_directory_def addCleanup_def)

section \<open>Deployments drawn from \<open>deployment_strategy\<close>\<close>

lemma mapping_step_node_strategy:
  "foldl (\<lambda>m' did. dict_set m' did (uuid (node_strategy u))) m
     (map fst (manifestations (node_strategy u))) = m"
  by (simp add: node_strategy_def Node_of_uuid_def)

lemma mapping_fold_node_strategy:
  "foldl (\<lambda>m node. foldl (\<lambda>m' did. dict_set m' did (uuid node)) m
                      (map fst (manifestations node))) m (map node_strategy us) = m"
  by (induction us arbitrary: m) (simp_all add: mapping_step_node_strategy)

lemma mapping_of_drawn_nodes: "dataset_id_node_mapping (map node_strategy us) = []"
  unfolding dataset_id_node_mapping_def by (rule mapping_fold_node_strategy)

lemma lease_indexes_of_drawn_nodes: "lease_indexes (map node_strategy us) dr = []"
  by (simp add: lease_indexes_def mapping_of_drawn_nodes)

lemma lease_selection_of_drawn_nodes: "lease_selection ord (map node_strategy us) dr = []"
  by (simp add: lease_selection_def lease_indexes_of_drawn_nodes)

lemma deployment_strategy_result:
  "deployment_strategy ord dr =
     Inr (build_deployment (map node_strategy (drawn_node_uuids dr)) [] PersistentState_new)"
  by (simp add: deployment_strategy_def deployment_of_nodes_def lease_selection_of_drawn_nodes
        persistent_state_strategy_def)

lemma leases_build_deployment_Nil: "leases (build_deployment ns [] ps) = []"
  by (simp add: build_deployment_def dict_comprehension_Nil)

lemma nodes_build_deployment: "nodes (build_deployment ns ls ps) = dict_comprehension uuid ns"
  by (simp add: build_deployment_def)

lemma nodes_lookup_build_deployment:
  "map_of (nodes (build_deployment ns ls ps)) u =
     (if filter (\<lambda>n. uuid n = u) ns = [] then None
      else Some (last (filter (\<lambda>n. uuid n = u) ns)))"
  by (simp add: nodes_build_deployment map_of_dict_comprehension)

lemma uuid_node_strategy: "uuid (node_strategy u) = u"
  by (simp add: node_strategy_def Node_of_uuid_def)

lemma shared_uuid_draws_valid: "valid_draws 2 shared_uuid_draws"
  by (simp add: valid_draws_def shared_uuid_draws_def)

lemma shared_uuid_draws_nodes:
  "nodes (build_deployment (map node_strategy (drawn_node_uuids shared_uuid_draws)) ls ps)
     = [(7, \<lparr>uuid = 7, manifestations = []\<rparr>)]"
  by (simp add: shared_uuid_draws_def nodes_build_deployment dict_comprehension_def dict_set_def
        node_strategy_def Node_of_uuid_def)

lemma shared_uuid_draws_result:
  "deployment_strategy ord shared_uuid_draws =
     Inr \<lparr>nodes = [(7, \<lparr>uuid = 7, manifestations = []\<rparr>)], leases = [],
          persistent_state = \<lparr>blockdevice_ownership = []\<rparr>\<rparr>"
proof -
  have "build_deployment (map node_strategy (drawn_node_uuids shared_uuid_draws)) []
          PersistentState_new =
        \<lparr>nodes = [(7, \<lparr>uuid = 7, manifestations = []\<rparr>)], leases = [],
          persistent_state = \<lparr>blockdevice_ownership = []\<rparr>\<rparr>"
    using shared_uuid_draws_nodes [of "[]" PersistentState_new]
      leases_build_deployment_Nil
        [of "map node_strategy (drawn_node_uuids shared_uuid_draws)" PersistentState_new]
    by (simp add: build_deployment_def PersistentState_new_def)
  then show ?thesis by (simp add: deployment_strategy_result)
qed

text \<open>
  On nodes that carry manifestations, which \<open>node_strategy\<close> never draws, the items the
  lease indexes select follow the iteration order of the mapping, and the call of
  \<open>lease_strategy\<close> with the keyword \<open>node_uuid\<close> is refused.
\<close>

lemma lease_strategy_refuses_node_uuid:
  "lease_strategy [(''dataset_id'', Just did), (''node_uuid'', Just node_uuid)] r = Inl TypeError"
  by (simp add: lease_strategy_def)

lemma draw_leases_refused: "draw_leases rs k (Inr p # sel) = Inl TypeError"
  by (cases p) (simp add: lease_strategy_refuses_node_uuid)

lemma mapping_of_two_dataset_node:
  "dataset_id_node_mapping [two_dataset_node] = [(10, 1), (11, 1)]"
  by (simp add: dataset_id_node_mapping_def two_dataset_node_def dict_set_def)

lemma lease_selection_follows_iteration_order:
  "lease_selection (\<lambda>d. d) [two_dataset_node] first_index_draws = [Inr (10, 1)] \<and>
   lease_selection rev [two_dataset_node] first_index_draws = [Inr (11, 1)]"
  by (simp add: lease_selection_def lease_indexes_def mapping_of_two_dataset_node
        first_index_draws_def dict_items_def getitem_def)

lemma deployment_of_two_dataset_node:
  "deployment_of_nodes (\<lambda>d. d) [two_dataset_node] first_index_draws = Inl TypeError"
  using lease_selection_follows_iteration_order
  by (simp add: deployment_of_nodes_def draw_leases_refused)

text \<open>
  C4: the leases mapping that \<open>deployment_strategy\<close> builds from any list of leases has
  each dataset id as a key once, and each key is the \<open>dataset_id\<close> of the Lease stored
  under it; so it is for every Deployment that \<open>deployment_strategy\<close> returns.
\<close>

theorem lease_keys_unique:
  "distinct (map fst (leases (build_deployment ns ls ps))) \<and>
   (\<forall>k l. (k, l) \<in> set (leases (build_deployment ns ls ps)) \<longrightarrow> dataset_id l = k) \<and>
   (deployment_strategy ord dr = Inr dep \<longrightarrow>
      distinct (map fst (leases dep)) \<and>
      (\<forall>k l. (k, l) \<in> set (leases dep) \<longrightarrow> dataset_id l = k))"
proof -
  have a: "distinct (map fst (leases (build_deployment ns ls ps)))" for ns ls ps
    by (simp add: build_deployment_def distinct_dict_comprehension)
  have b: "\<forall>k l. (k, l) \<in> set (leases (build_deployment ns ls ps)) \<longrightarrow> dataset_id l = k"
    for ns ls ps
    by (auto simp: build_deployment_def dest: dict_comprehension_key)
  show ?thesis using a b by (auto simp: deployment_strategy_result)
qed

theorem lease_keys_unique_witness:
  "leases (build_deployment [] two_leases PersistentState_new)
     = [(10, \<lparr>dataset_id = 10, node_id = 2, expiration = 6\<rparr>)] \<and>
   distinct (map fst (leases (build_deployment [] two_leases PersistentState_new))) \<and>
   dataset_id \<lparr>dataset_id = 10, node_id = 2, expiration = 6\<rparr> = 10 \<and>
   deployment_strategy (\<lambda>d. d) shared_uuid_draws =
     Inr \<lparr>nodes = [(7, \<lparr>uuid = 7, manifestations = []\<rparr>)], leases = [],
          persistent_state = \<lparr>blockdevice_ownership = []\<rparr>\<rparr> \<and>
   distinct (map fst (leases \<lparr>nodes = [(7, \<lparr>uuid = 7, manifestations = []\<rparr>)], leases = [],
          persistent_state = \<lparr>blockdevice_ownership = []\<rparr>\<rparr>))"
proof -
  have built: "leases (build_deployment [] two_leases PersistentState_new)
     = [(10, \<lparr>dataset_id = 10, node_id = 2, expiration = 6\<rparr>)]"
    by (simp add: build_deployment_def dict_comprehension_def dict_set_def two_leases_def)
  have drawn: "deployment_strategy (\<lambda>d. d) shared_uuid_draws =
     Inr \<lparr>nodes = [(7, \<lparr>uuid = 7, manifestations = []\<rparr>)], leases = [],
          persistent_state = \<lparr>blockdevice_ownership = []\<rparr>\<rparr>"
    by (rule shared_uuid_draws_result)
  show ?thesis
    using built drawn
      lease_keys_unique [of "[]" two_leases PersistentState_new "\<lambda>d. d" shared_uuid_draws
        "\<lparr>nodes = [(7, \<lparr>uuid = 7, manifestations = []\<rparr>)], leases = [],
          persistent_state = \<lparr>blockdevice_ownership = []\<rparr>\<rparr>"]
    by simp
qed





text \<open>
  C8: \<open>node_strategy\<close> builds each Node from a uuid alone, with no manifestations, so for
  every draw of \<open>deployment_strategy\<close> the mapping \<open>dataset_id_node_mapping\<close> is empty, the
  list of lease indexes is empty, and the Deployment returned has an empty leases mapping.
\<close>

theorem drawn_deployments_have_no_leases:
  "node_strategy r = \<lparr>uuid = r, manifestations = []\<rparr> \<and>
   dataset_id_node_mapping (map node_strategy (drawn_node_uuids dr)) = [] \<and>
   lease_indexes (map node_strategy (drawn_node_uuids dr)) dr = [] \<and>
   (\<exists>dep. deployment_strategy ord dr = Inr dep \<and> leases dep = [])"
  by (simp add: node_strategy_def Node_of_uuid_def mapping_of_drawn_nodes
        lease_indexes_of_drawn_nodes deployment_strategy_result leases_build_deployment_Nil)

text \<open>
  C9: \<open>persistent_state_strategy\<close> yields the empty \<open>PersistentState()\<close> whatever is
  drawn, and every Deployment drawn from \<open>deployment_strategy\<close> carries it, with an empty
  ownership ledger.
\<close>

theorem persistent_state_strategy_constant:
  "persistent_state_strategy dr = PersistentState_new \<and>
   blockdevice_ownership (persistent_state_strategy dr) = [] \<and>
   (\<exists>dep. deployment_strategy ord dr = Inr dep \<and>
      persistent_state dep = PersistentState_new \<and>
      blockdevice_ownership (persistent_state dep) = [])"
  by (simp add: persistent_state_strategy_def PersistentState_new_def deployment_strategy_result
        build_deployment_def)

text \<open>
  C10: for every Deployment drawn from \<open>deployment_strategy\<close>, each key of the nodes
  mapping is the uuid of the Node stored under it, the keys are the uuids of the drawn
  nodes, and a uuid that several drawn nodes share keeps the last of them; so the mapping
  has at most as many entries as nodes were drawn, and with two nodes asked for it can have
  fewer than two.
\<close>

theorem nodes_keyed_by_uuid:
  "\<exists>dep. deployment_strategy ord dr = Inr dep \<and>
     distinct (map fst (nodes dep)) \<and>
     (\<forall>u n. (u, n) \<in> set (nodes dep) \<longrightarrow> uuid n = u) \<and>
     fst ` set (nodes dep) = set (drawn_node_uuids dr) \<and>
     (\<forall>u. map_of (nodes dep) u =
        (if filter (\<lambda>n. uuid n = u) (map node_strategy (drawn_node_uuids dr)) = [] then None
         else Some (last (filter (\<lambda>n. uuid n = u) (map node_strategy (drawn_node_uuids dr)))))) \<and>
     length (nodes dep) \<le> length (drawn_node_uuids dr) \<and>
     (\<exists>dr2 dep2. valid_draws 2 dr2 \<and> deployment_strategy ord dr2 = Inr dep2 \<and>
        length (nodes dep2) < 2)"
proof -
  let ?ns = "map node_strategy (drawn_node_uuids dr)"
  let ?dep = "build_deployment ?ns [] PersistentState_new"
  have r: "deployment_strategy ord dr = Inr ?dep"
    by (rule deployment_strategy_result)
  have d: "distinct (map fst (nodes ?dep))"
    by (simp add: nodes_build_deployment distinct_dict_comprehension)
  have k: "\<forall>u n. (u, n) \<in> set (nodes ?dep) \<longrightarrow> uuid n = u"
    by (auto simp: nodes_build_deployment dest: dict_comprehension_key)
  have "uuid ` set ?ns = set (drawn_node_uuids dr)"
    by (simp add: image_image uuid_node_strategy)
  then have s: "fst ` set (nodes ?dep) = set (drawn_node_uuids dr)"
    by (simp add: nodes_build_deployment keys_dict_comprehension)
  have m: "\<forall>u. map_of (nodes ?dep) u =
        (if filter (\<lambda>n. uuid n = u) ?ns = [] then None
         else Some (last (filter (\<lambda>n. uuid n = u) ?ns)))"
    by (simp only: nodes_lookup_build_deployment) simp
  have l: "length (nodes ?dep) \<le> length (drawn_node_uuids dr)"
    using length_dict_comprehension [of uuid ?ns] by (simp add: nodes_build_deployment)
  have e: "\<exists>dr2 dep2. valid_draws 2 dr2 \<and> deployment_strategy ord dr2 = Inr dep2 \<and>
        length (nodes dep2) < 2"
    using shared_uuid_draws_valid deployment_strategy_result [of ord shared_uuid_draws]
      shared_uuid_draws_nodes [of "[]" PersistentState_new]
    by (intro exI [of _ shared_uuid_draws]) simp
  show ?thesis using r d k s m l e by blast
qed

theorem nodes_keyed_by_uuid_witness:
  "valid_draws 2 shared_uuid_draws \<and>
   deployment_strategy (\<lambda>d. d) shared_uuid_draws =
     Inr \<lparr>nodes = [(7, \<lparr>uuid = 7, manifestations = []\<rparr>)], leases = [],
          persistent_state = \<lparr>blockdevice_ownership = []\<rparr>\<rparr> \<and>
   (\<exists>dep. deployment_strategy (\<lambda>d. d) shared_uuid_draws = Inr dep \<and>
      (\<forall>u n. (u, n) \<in> set (nodes dep) \<longrightarrow> uuid n = u) \<and>
      fst ` set (nodes dep) = {7} \<and>
      length (nodes dep) \<le> 2)"
proof -
  have v: "valid_draws 2 shared_uuid_draws" by (rule shared_uuid_draws_valid)
  have r: "deployment_strategy (\<lambda>d. d) shared_uuid_draws =
     Inr \<lparr>nodes = [(7, \<lparr>uuid = 7, manifestations = []\<rparr>)], leases = [],
          persistent_state = \<lparr>blockdevice_ownership = []\<rparr>\<rparr>"
    by (rule shared_uuid_draws_result)
  show ?thesis
    using v r nodes_keyed_by_uuid [of "\<lambda>d. d" shared_uuid_draws]
    by (simp add: shared_uuid_draws_def)
qed

end
